theory Spec2Isabelle
  imports Main "HOL-Library.Word"
begin

section \<open>Alarm access point: HTTP control page and actuator tick\<close>

text \<open>
  A shallow embedding of \<^verbatim>\<open>picow_access_point.c\<close>: the alarm actuator tick
  (\<^verbatim>\<open>update_alarm\<close>), the HTML generator (\<^verbatim>\<open>alarm_control_content\<close>) and the
  lwIP callbacks of a client connection (\<^verbatim>\<open>tcp_server_recv\<close>, \<^verbatim>\<open>tcp_server_sent\<close>,
  \<^verbatim>\<open>tcp_server_poll\<close>, \<^verbatim>\<open>tcp_server_err\<close>). The C structs are records that
  are passed in and returned updated; what lwIP answers to \<^verbatim>\<open>tcp_write\<close> and
  \<^verbatim>\<open>tcp_close\<close> is an input of the callbacks, and so is what the C library's
  \<^verbatim>\<open>sscanf\<close> stores for a number outside the range of \<^verbatim>\<open>int\<close>. Logging through
  \<^verbatim>\<open>printf\<close> is left out.
\<close>

subsection \<open>Configuration constants\<close>

definition PWM_WRAP :: nat where
  "PWM_WRAP = 62500"

definition BEEP_DURATION_MS :: int where
  "BEEP_DURATION_MS = 200"

definition BEEP_INTERVAL_MS :: int where
  "BEEP_INTERVAL_MS = 100"

definition HTTP_GET :: string where
  "HTTP_GET = ''GET''"

definition ALARM_CONTROL :: string where
  "ALARM_CONTROL = ''/alarm''"

text \<open>Sizes of the two character arrays of \<^verbatim>\<open>TCP_CONNECT_STATE_T\<close>.\<close>

definition sizeof_headers :: nat where
  "sizeof_headers = 128"

definition sizeof_result :: nat where
  "sizeof_result = 256"

subsection \<open>C strings\<close>

text \<open>
  A character array is a \<^typ>\<open>string\<close> of the array's length. The C string that starts
  at offset \<open>i\<close> of an array runs up to the first NUL byte. In the program the last byte
  of \<^verbatim>\<open>headers\<close> is always NUL (the struct comes from \<^verbatim>\<open>calloc\<close>, the request copy
  writes at most 127 bytes and \<^verbatim>\<open>snprintf\<close> terminates what it writes; this is proved
  below), so no string function reads past the array; in the model a string also ends
  where the array ends.
\<close>

definition NUL :: char where
  "NUL = CHR 0x00"

definition cstr :: "string \<Rightarrow> nat \<Rightarrow> string" where
  "cstr buf i = takeWhile (\<lambda>c. c \<noteq> NUL) (drop i buf)"

text \<open>
  \<^verbatim>\<open>strncmp(a, b, n)\<close> on two C strings given without their terminators: the end of
  a list is the terminating NUL. The result is the difference of the first two bytes
  that differ, as unsigned bytes.
\<close>

fun strncmp :: "string \<Rightarrow> string \<Rightarrow> nat \<Rightarrow> int" where
  "strncmp [] [] n = 0"
| "strncmp [] (b # bs) n = (if n = 0 then 0 else - of_char b)"
| "strncmp (a # as) [] n = (if n = 0 then 0 else of_char a)"
| "strncmp (a # as) (b # bs) n =
     (if n = 0 then 0
      else if a = b then strncmp as bs (n - 1)
      else of_char a - of_char b)"

text \<open>
  \<^verbatim>\<open>strchr(buf + i, c)\<close> for a byte \<open>c\<close> other than NUL: the offset in the array of
  the first \<open>c\<close> of the C string at offset \<open>i\<close>, or \<open>None\<close> for the null pointer.
\<close>

definition strchr :: "string \<Rightarrow> nat \<Rightarrow> char \<Rightarrow> nat option" where
  "strchr buf i c =
     (let s = cstr buf i
      in if c \<in> set s then Some (i + length (takeWhile (\<lambda>x. x \<noteq> c) s)) else None)"

text \<open>
  \<^verbatim>\<open>snprintf(buf, n, ...)\<close>, given the fully formatted text \<open>s\<close>: at most
  \<open>n - 1\<close> bytes of it are stored, followed by a NUL; the rest of the array keeps
  its bytes; the value returned is the length of the whole text, stored or not.
\<close>

definition snprintf :: "string \<Rightarrow> nat \<Rightarrow> string \<Rightarrow> string \<times> int" where
  "snprintf buf n s =
     (let w = take (n - 1) s
      in (w @ [NUL] @ drop (length w + 1) buf, int (length s)))"

subsection \<open>Decimal numbers: \<^verbatim>\<open>%d\<close> of printf and of scanf\<close>

definition digit_char :: "nat \<Rightarrow> char" where
  "digit_char d = char_of (48 + d)"

function dec_nat :: "nat \<Rightarrow> string" where
  "dec_nat n = (if n < 10 then [digit_char n] else dec_nat (n div 10) @ [digit_char (n mod 10)])"
  by pat_completeness auto
termination
  by (relation "measure id") auto

declare dec_nat.simps [simp del]

definition dec_int :: "int \<Rightarrow> string" where
  "dec_int n = (if n < 0 then CHR ''-'' # dec_nat (nat (- n)) else dec_nat (nat n))"

definition isspace :: "char \<Rightarrow> bool" where
  "isspace c = (c = CHR '' '' \<or> (9::nat) \<le> of_char c \<and> (of_char c :: nat) \<le> 13)"

definition isdigit :: "char \<Rightarrow> bool" where
  "isdigit c = ((48::nat) \<le> of_char c \<and> (of_char c :: nat) \<le> 57)"

definition digit_val :: "char \<Rightarrow> int" where
  "digit_val c = of_char c - 48"

definition INT_MAX :: int where
  "INT_MAX = 2147483647"

definition INT_MIN :: int where
  "INT_MIN = - 2147483648"

text \<open>
  The conversion \<^verbatim>\<open>%d\<close> of \<^verbatim>\<open>sscanf\<close>: white space is skipped, then an optional
  sign and a non-empty run of decimal digits are read; \<open>None\<close> when there is no digit.
  A number within the range of \<^verbatim>\<open>int\<close> is stored as it is. For a number outside the
  range ISO C leaves the conversion undefined, and the repository does not fix the C
  library: what is stored then is the parameter \<open>out_of_range\<close>, applied to the number.
\<close>

definition scan_sign :: "string \<Rightarrow> bool \<times> string" where
  "scan_sign s =
     (case s of
        [] \<Rightarrow> (False, [])
      | c # r \<Rightarrow> if c = CHR ''-'' then (True, r) else if c = CHR ''+'' then (False, r) else (False, s))"

definition scan_d :: "(int \<Rightarrow> int) \<Rightarrow> string \<Rightarrow> int option" where
  "scan_d out_of_range s =
     (let (neg, s2) = scan_sign (dropWhile isspace s);
          ds = takeWhile isdigit s2;
          v = foldl (\<lambda>a c. 10 * a + digit_val c) 0 ds;
          n = (if neg then - v else v)
      in if ds = [] then None
         else if INT_MIN \<le> n \<and> n \<le> INT_MAX then Some n
         else Some (out_of_range n))"

text \<open>
  Two C libraries, for the examples: one whose conversion saturates (a \<^verbatim>\<open>strtol\<close>
  with a 32-bit \<^verbatim>\<open>long\<close>), and one that keeps the low 32 bits of the number (a
  \<^verbatim>\<open>strtol\<close> with a 64-bit \<^verbatim>\<open>long\<close>, stored into an \<^verbatim>\<open>int\<close>).
\<close>

definition saturating :: "int \<Rightarrow> int" where
  "saturating n = max INT_MIN (min INT_MAX n)"

definition truncating :: "int \<Rightarrow> int" where
  "truncating n = (n + 2 ^ 31) mod 2 ^ 32 - 2 ^ 31"

text \<open>
  \<^verbatim>\<open>sscanf(params, "alarm=%d", &alarm_param)\<close>: \<open>Some v\<close> when the call returns 1,
  having stored \<open>v\<close>; \<open>None\<close> when it returns 0 or \<^verbatim>\<open>EOF\<close>. The literal part of
  the format has to match byte for byte.
\<close>

definition sscanf_ALARM_PARAM :: "(int \<Rightarrow> int) \<Rightarrow> string \<Rightarrow> int option" where
  "sscanf_ALARM_PARAM out_of_range params =
     (if take 6 params = ''alarm='' then scan_d out_of_range (drop 6 params) else None)"

subsection \<open>The response templates\<close>

definition ALARM_CONTROL_BODY :: "string \<Rightarrow> int \<Rightarrow> string \<Rightarrow> string" where
  \<open>ALARM_CONTROL_BODY status target label =
     ''<html><body style="text-align:center;margin-top:50px">'' @
     ''<h1>Alarme</h1>'' @
     ''<p>'' @ status @ ''</p>'' @
     ''<a href="?alarm='' @ dec_int target @
     ''" style="background:#4CAF50;color:white;padding:5px 10px;text-decoration:none">'' @
     label @ ''</a>'' @
     ''</body></html>''\<close>

definition HTTP_RESPONSE_HEADERS :: "int \<Rightarrow> int \<Rightarrow> string" where
  "HTTP_RESPONSE_HEADERS code len =
     ''HTTP/1.1 '' @ dec_int code @ '' OK\<newline>Content-Length: '' @ dec_int len @
     ''\<newline>Content-Type: text/html; charset=utf-8\<newline>Connection: close\<newline>\<newline>''"

definition HTTP_RESPONSE_REDIRECT :: "string \<Rightarrow> string" where
  "HTTP_RESPONSE_REDIRECT host =
     ''HTTP/1.1 302 Redirect\<newline>Location: http://'' @ host @ ALARM_CONTROL @ ''\<newline>\<newline>''"

text \<open>
  The gateway address is the four octets given to \<^verbatim>\<open>IP4_ADDR\<close>; lwIP's
  \<^verbatim>\<open>ipaddr_ntoa\<close> prints them in dotted decimal.
\<close>

type_synonym ip_addr_t = "8 word \<times> 8 word \<times> 8 word \<times> 8 word"

fun ipaddr_ntoa :: "ip_addr_t \<Rightarrow> string" where
  "ipaddr_ntoa (a, b, c, d) =
     dec_nat (unat a) @ ''.'' @ dec_nat (unat b) @ ''.'' @ dec_nat (unat c) @ ''.'' @ dec_nat (unat d)"

subsection \<open>Server state and the actuator tick\<close>

text \<open>
  Timestamps (\<^verbatim>\<open>absolute_time_t\<close>) are microseconds since boot, 64 bits wide in the
  SDK; the model counts them in \<^typ>\<open>int\<close>.
\<close>

type_synonym absolute_time_t = int

record TCP_SERVER_T =
  server_pcb :: bool
  complete :: bool
  gw :: ip_addr_t
  alarm_active :: bool
  next_toggle_time :: absolute_time_t
  beep_active :: bool
  beep_end_time :: absolute_time_t

text \<open>
  What \<^verbatim>\<open>update_alarm\<close> drives: the level of the LED pin, the PWM level of the
  buzzer pin, the two lines last sent to the display, and the function's own static
  variable \<^verbatim>\<open>led_state\<close>.
\<close>

record outputs =
  red_led :: bool
  pwm_level :: nat
  display :: "string \<times> string"
  led_state :: bool

text \<open>
  \<^verbatim>\<open>update_alarm\<close> reads the clock up to four times; the readings are, in the order
  of the source text: for the toggle test, for the end of the beep, for the next
  toggle, and for the test of the end of the beep.
\<close>

record clock_readings =
  t_toggle_test :: absolute_time_t
  t_beep_start :: absolute_time_t
  t_schedule :: absolute_time_t
  t_beep_test :: absolute_time_t

definition absolute_time_diff_us :: "absolute_time_t \<Rightarrow> absolute_time_t \<Rightarrow> int" where
  "absolute_time_diff_us t_from t_to = t_to - t_from"

definition delayed_by_us :: "absolute_time_t \<Rightarrow> int \<Rightarrow> absolute_time_t" where
  "delayed_by_us t us = t + us"

text \<open>The first \<^verbatim>\<open>if\<close> of the armed branch: the blink and beep toggle.\<close>

definition toggle_step :: "clock_readings \<Rightarrow> TCP_SERVER_T \<times> outputs \<Rightarrow> TCP_SERVER_T \<times> outputs" where
  "toggle_step clk so =
     (let (state, out) = so
      in if absolute_time_diff_us (t_toggle_test clk) (next_toggle_time state) \<le> 0 then
           let led = \<not> led_state out;
               out1 = out\<lparr>led_state := led, red_led := led\<rparr>;
               (state1, out2) =
                 (if led then
                    (state\<lparr>beep_active := True,
                            beep_end_time := delayed_by_us (t_beep_start clk) (BEEP_DURATION_MS * 1000)\<rparr>,
                     out1\<lparr>pwm_level := PWM_WRAP div 2\<rparr>)
                  else
                    (state\<lparr>beep_active := False\<rparr>, out1\<lparr>pwm_level := 0\<rparr>))
           in (state1\<lparr>next_toggle_time := delayed_by_us (t_schedule clk) (BEEP_INTERVAL_MS * 1000)\<rparr>, out2)
         else (state, out))"

definition update_alarm :: "clock_readings \<Rightarrow> TCP_SERVER_T \<times> outputs \<Rightarrow> TCP_SERVER_T \<times> outputs" where
  "update_alarm clk so =
     (let (state, out) = so
      in if alarm_active state then
           let (state1, out1) = toggle_step clk (state, out);
               (state2, out2) =
                 (if beep_active state1 \<and>
                     absolute_time_diff_us (t_beep_test clk) (beep_end_time state1) \<le> 0
                  then (state1\<lparr>beep_active := False\<rparr>, out1\<lparr>pwm_level := 0\<rparr>)
                  else (state1, out1))
           in (state2, out2\<lparr>display := (''ALARME'', ''EVACUAR'')\<rparr>)
         else
           (state\<lparr>beep_active := False\<rparr>,
            out\<lparr>red_led := False, pwm_level := 0, display := (''Sistema'', ''em repouso'')\<rparr>))"

subsection \<open>The content generator\<close>

text \<open>
  \<^verbatim>\<open>alarm_control_content(request, params, result, max_result_len, state)\<close>:
  \<open>request\<close> and \<open>params\<close> are the C strings the pointers refer to (\<open>None\<close> for
  the null pointer), \<open>result\<close> is the array written to. Returned are the length, the
  array and the server state. The first argument of the model is the C library's
  conversion of numbers outside the range of \<^verbatim>\<open>int\<close>.
\<close>

definition alarm_control_content ::
  "(int \<Rightarrow> int) \<Rightarrow> string \<Rightarrow> string option \<Rightarrow> string \<Rightarrow> nat \<Rightarrow> TCP_SERVER_T
     \<Rightarrow> int \<times> string \<times> TCP_SERVER_T" where
  "alarm_control_content out_of_range request params result max_result_len state =
     (if strncmp request ALARM_CONTROL (length ALARM_CONTROL) = 0 then
        let state1 =
              (case params of
                 None \<Rightarrow> state
               | Some p \<Rightarrow>
                   (case sscanf_ALARM_PARAM out_of_range p of
                      Some alarm_param \<Rightarrow> state\<lparr>alarm_active := (alarm_param \<noteq> 0)\<rparr>
                    | None \<Rightarrow> state));
            (result1, len) =
              (if alarm_active state1 then
                 snprintf result max_result_len (ALARM_CONTROL_BODY ''ATIVADO'' 0 ''Desligar'')
               else
                 snprintf result max_result_len (ALARM_CONTROL_BODY ''DESATIVADO'' 1 ''Ligar''))
        in (len, result1, state1)
      else (0, result, state))"

subsection \<open>Client connections\<close>

datatype err_t =
  ERR_OK | ERR_MEM | ERR_BUF | ERR_TIMEOUT | ERR_RTE | ERR_INPROGRESS | ERR_VAL
| ERR_WOULDBLOCK | ERR_USE | ERR_ALREADY | ERR_ISCONN | ERR_CONN | ERR_IF
| ERR_ABRT | ERR_RST | ERR_CLSD | ERR_ARG

text \<open>
  lwIP's side of a client connection: whether the callbacks of the program are still
  registered, how the connection stands, the byte strings handed to \<^verbatim>\<open>tcp_write\<close>
  so far, and the number of bytes reported with \<^verbatim>\<open>tcp_recved\<close>.
\<close>

datatype pcb_state = ESTABLISHED | CLOSED | ABORTED

record tcp_pcb =
  callbacks :: bool
  conn :: pcb_state
  written :: "string list"
  recved :: nat

text \<open>
  The \<^verbatim>\<open>int\<close> fields are counted in \<^typ>\<open>int\<close>: on an open connection they stay
  below 400 (proved below), and an acknowledgment adds at most 65535.
\<close>

record TCP_CONNECT_STATE_T =
  sent_len :: int
  headers :: string
  result :: string
  header_len :: int
  result_len :: int

text \<open>
  The answers of lwIP that a callback cannot know in advance: the value returned by
  \<^verbatim>\<open>tcp_write\<close> for the header and for the body, and by \<^verbatim>\<open>tcp_close\<close>.
\<close>

record lwip_answers =
  tcp_write_headers :: err_t
  tcp_write_result :: err_t
  tcp_close_ret :: err_t

text \<open>
  A callback returns its \<^verbatim>\<open>err_t\<close>, the connection state (\<open>None\<close> once it has
  been freed) and lwIP's side of the connection.
\<close>

type_synonym callback_result = "err_t \<times> TCP_CONNECT_STATE_T option \<times> tcp_pcb"

definition tcp_close_client_connection ::
  "lwip_answers \<Rightarrow> TCP_CONNECT_STATE_T option \<Rightarrow> tcp_pcb option \<Rightarrow> err_t \<Rightarrow> err_t \<times> TCP_CONNECT_STATE_T option \<times> tcp_pcb option" where
  "tcp_close_client_connection lw con_state client_pcb close_err =
     (case client_pcb of
        None \<Rightarrow> (close_err, con_state, None)
      | Some pcb \<Rightarrow>
          let pcb1 = pcb\<lparr>callbacks := False\<rparr>;
              err = tcp_close_ret lw
          in if err \<noteq> ERR_OK then (ERR_ABRT, None, Some (pcb1\<lparr>conn := ABORTED\<rparr>))
             else (close_err, None, Some (pcb1\<lparr>conn := CLOSED\<rparr>)))"

text \<open>The callbacks get the connection's own, non-null \<^verbatim>\<open>pcb\<close> from lwIP.\<close>

definition close_client :: "lwip_answers \<Rightarrow> TCP_CONNECT_STATE_T \<Rightarrow> tcp_pcb \<Rightarrow> err_t \<Rightarrow> callback_result" where
  "close_client lw con_state pcb close_err =
     (case tcp_close_client_connection lw (Some con_state) (Some pcb) close_err of
        (e, c, p) \<Rightarrow> (e, c, case p of Some pcb1 \<Rightarrow> pcb1 | None \<Rightarrow> pcb))"

text \<open>\<^verbatim>\<open>tcp_write(pcb, data, len, 0)\<close> that returned \<^verbatim>\<open>ERR_OK\<close>; \<open>len\<close> is a \<^verbatim>\<open>u16_t\<close>.\<close>

definition tcp_write :: "tcp_pcb \<Rightarrow> string \<Rightarrow> int \<Rightarrow> tcp_pcb" where
  "tcp_write pcb data len = pcb\<lparr>written := written pcb @ [take (nat (len mod 65536)) data]\<rparr>"

definition tcp_server_sent ::
  "lwip_answers \<Rightarrow> TCP_CONNECT_STATE_T \<Rightarrow> tcp_pcb \<Rightarrow> 16 word \<Rightarrow> callback_result" where
  "tcp_server_sent lw con_state pcb len =
     (let con1 = con_state\<lparr>sent_len := sent_len con_state + uint len\<rparr>
      in if sent_len con1 \<ge> header_len con1 + result_len con1
         then close_client lw con1 pcb ERR_OK
         else (ERR_OK, Some con1, pcb))"



text \<open>
  \<^verbatim>\<open>tcp_server_accept\<close> for a successful accept and allocation: the state that
  \<^verbatim>\<open>calloc\<close> returns is all zero, and the callbacks are registered.
\<close>

definition calloc_TCP_CONNECT_STATE_T :: TCP_CONNECT_STATE_T where
  "calloc_TCP_CONNECT_STATE_T =
     \<lparr>sent_len = 0, headers = replicate sizeof_headers NUL,
      result = replicate sizeof_result NUL, header_len = 0, result_len = 0\<rparr>"

definition new_client_pcb :: tcp_pcb where
  "new_client_pcb = \<lparr>callbacks = True, conn = ESTABLISHED, written = [], recved = 0\<rparr>"

subsection \<open>Receiving a request\<close>

text \<open>
  \<^verbatim>\<open>pbuf_copy_partial(p, headers, n, 0)\<close> overwrites the first \<open>n\<close> bytes of the
  array with the first \<open>n\<close> bytes received.
\<close>

definition pbuf_copy_partial :: "string \<Rightarrow> string \<Rightarrow> nat \<Rightarrow> string" where
  "pbuf_copy_partial payload buf n = take n payload @ drop n buf"

text \<open>
  Splitting the query off the request line, in place. \<open>request\<close> is the offset of the
  request string in \<^verbatim>\<open>headers\<close>. Returned are the array and the offset of
  \<^verbatim>\<open>params\<close> (\<open>None\<close> for the null pointer).
\<close>

definition split_params :: "string \<Rightarrow> nat \<Rightarrow> string \<times> nat option" where
  "split_params hdrs request =
     (case strchr hdrs request (CHR ''?'') of
        None \<Rightarrow> (hdrs, None)
      | Some params \<Rightarrow>
          if hdrs ! params \<noteq> NUL then
            let space = strchr hdrs request (CHR '' '');
                hdrs1 = hdrs[params := NUL];
                hdrs2 = (case space of Some sp \<Rightarrow> hdrs1[sp := NUL] | None \<Rightarrow> hdrs1)
            in (hdrs2, Some (params + 1))
          else (hdrs, None))"

text \<open>Writing the header and the body, and acknowledging the request.\<close>

definition write_response ::
  "lwip_answers \<Rightarrow> TCP_CONNECT_STATE_T \<Rightarrow> tcp_pcb \<Rightarrow> nat \<Rightarrow> callback_result" where
  "write_response lw con_state pcb tot_len =
     (let con1 = con_state\<lparr>sent_len := 0\<rparr>;
          err = tcp_write_headers lw
      in if err \<noteq> ERR_OK then close_client lw con1 pcb err
         else
           let pcb1 = tcp_write pcb (headers con1) (header_len con1)
           in if result_len con1 \<noteq> 0 then
                let err = tcp_write_result lw
                in if err \<noteq> ERR_OK then close_client lw con1 pcb1 err
                   else
                     let pcb2 = tcp_write pcb1 (result con1) (result_len con1)
                     in (ERR_OK, Some con1, pcb2\<lparr>recved := recved pcb2 + tot_len\<rparr>)
              else (ERR_OK, Some con1, pcb1\<lparr>recved := recved pcb1 + tot_len\<rparr>))"

text \<open>
  From the check of the body length on, with \<^verbatim>\<open>result_len\<close> already stored. The
  two capacity checks compare an \<^verbatim>\<open>int\<close> with a \<^verbatim>\<open>size_t\<close>, so the \<^verbatim>\<open>int\<close> is
  taken modulo \<open>2 ^ 32\<close>.
\<close>

definition send_response ::
  "lwip_answers \<Rightarrow> TCP_CONNECT_STATE_T \<Rightarrow> tcp_pcb \<Rightarrow> ip_addr_t \<Rightarrow> nat \<Rightarrow> callback_result" where
  "send_response lw con_state pcb gateway tot_len =
     (if result_len con_state mod 2 ^ 32 > int (sizeof_result - 1) then
        close_client lw con_state pcb ERR_CLSD
      else if result_len con_state > 0 then
        let (hdrs, len) =
              snprintf (headers con_state) sizeof_headers
                (HTTP_RESPONSE_HEADERS 200 (result_len con_state));
            con1 = con_state\<lparr>headers := hdrs, header_len := len\<rparr>
        in if header_len con1 mod 2 ^ 32 > int (sizeof_headers - 1) then
             close_client lw con1 pcb ERR_CLSD
           else write_response lw con1 pcb tot_len
      else
        let (hdrs, len) =
              snprintf (headers con_state) sizeof_headers
                (HTTP_RESPONSE_REDIRECT (ipaddr_ntoa gateway));
            con1 = con_state\<lparr>headers := hdrs, header_len := len\<rparr>
        in write_response lw con1 pcb tot_len)"

text \<open>
  \<^verbatim>\<open>tcp_server_recv\<close>: \<open>p\<close> is the payload of the pbuf, \<open>None\<close> for the null
  pointer that reports that the peer has closed. The server state the connection points
  to is passed in and returned. The first argument is handed on to the content
  generator.
\<close>

definition tcp_server_recv ::
  "(int \<Rightarrow> int) \<Rightarrow> lwip_answers \<Rightarrow> TCP_CONNECT_STATE_T \<Rightarrow> tcp_pcb \<Rightarrow> string option
     \<Rightarrow> TCP_SERVER_T \<Rightarrow> callback_result \<times> TCP_SERVER_T" where
  "tcp_server_recv out_of_range lw con_state pcb p state =
     (case p of
        None \<Rightarrow> (close_client lw con_state pcb ERR_OK, state)
      | Some payload \<Rightarrow>
          let tot_len = length payload
          in if tot_len > 0 then
               let con1 = con_state\<lparr>headers :=
                            pbuf_copy_partial payload (headers con_state)
                              (if tot_len > sizeof_headers - 1 then sizeof_headers - 1 else tot_len)\<rparr>
               in if strncmp HTTP_GET (cstr (headers con1) 0) (length HTTP_GET) = 0 then
                    let request = length HTTP_GET + 1;
                        (hdrs, params) = split_params (headers con1) request;
                        (len, res, state1) =
                          alarm_control_content out_of_range (cstr hdrs request)
                            (map_option (cstr hdrs) params)
                            (result con1) sizeof_result state;
                        con2 = con1\<lparr>headers := hdrs, result := res, result_len := len\<rparr>
                    in (send_response lw con2 pcb (gw state1) tot_len, state1)
                  else ((ERR_OK, Some con1, pcb\<lparr>recved := recved pcb + tot_len\<rparr>), state)
             else ((ERR_OK, Some con_state, pcb), state))"

subsection \<open>Example states\<close>

text \<open>The server state that \<^verbatim>\<open>main\<close> sets up, the alarm off, at time 0.\<close>

definition idle_state :: TCP_SERVER_T where
  "idle_state =
     \<lparr>server_pcb = True, complete = False, gw = (192, 168, 4, 1), alarm_active = False,
      next_toggle_time = 0, beep_active = False, beep_end_time = 0\<rparr>"

text \<open>The alarm on and a beep running, the next toggle due at 100 ms.\<close>

definition beeping_state :: TCP_SERVER_T where
  "beeping_state =
     idle_state\<lparr>alarm_active := True, next_toggle_time := 100000,
                beep_active := True, beep_end_time := 200000\<rparr>"

text \<open>The alarm switched on by a request right after start, before the first tick.\<close>

definition armed_state :: TCP_SERVER_T where
  "armed_state = idle_state\<lparr>alarm_active := True\<rparr>"

definition outputs_off :: outputs where
  "outputs_off =
     \<lparr>red_led = False, pwm_level = 0, display = (''Iniciando'', ''sistema...''),
      led_state = False\<rparr>"

text \<open>A tick during which the clock does not advance.\<close>

definition at_time :: "absolute_time_t \<Rightarrow> clock_readings" where
  "at_time t = \<lparr>t_toggle_test = t, t_beep_start = t, t_schedule = t, t_beep_test = t\<rparr>"

text \<open>The main loop calling \<^verbatim>\<open>update_alarm\<close> at the given times, one after the other.\<close>

definition ticks :: "absolute_time_t list \<Rightarrow> TCP_SERVER_T \<times> outputs \<Rightarrow> TCP_SERVER_T \<times> outputs" where
  "ticks ts so = foldl (\<lambda>so' t. update_alarm (at_time t) so') so ts"

definition lwip_ok :: lwip_answers where
  "lwip_ok = \<lparr>tcp_write_headers = ERR_OK, tcp_write_result = ERR_OK, tcp_close_ret = ERR_OK\<rparr>"


text \<open>
  What holds of the state of every open connection: both arrays have their size, the
  last byte of \<^verbatim>\<open>headers\<close> is NUL, and the three counters are small and not
  negative, far from the limits of a C \<^verbatim>\<open>int\<close>.
\<close>

definition con_state_ok :: "TCP_CONNECT_STATE_T \<Rightarrow> bool" where
  "con_state_ok c =
     (length (headers c) = sizeof_headers \<and> headers c ! (sizeof_headers - 1) = NUL \<and>
      length (result c) = sizeof_result \<and>
      0 \<le> sent_len c \<and> sent_len c \<le> 382 \<and>
      0 \<le> header_len c \<and> header_len c \<le> 127 \<and>
      0 \<le> result_len c \<and> result_len c \<le> 255)"

section \<open>Properties\<close>

subsection \<open>Closing a connection; the server state across a request\<close>

lemma close_client_eq:
  "close_client lw con pcb e =
     (if tcp_close_ret lw = ERR_OK then e else ERR_ABRT, None,
      pcb\<lparr>callbacks := False, conn := (if tcp_close_ret lw = ERR_OK then CLOSED else ABORTED)\<rparr>)"
  by (simp add: close_client_def tcp_close_client_connection_def Let_def)

lemma alarm_control_content_state:
  "(snd (snd (alarm_control_content conv request params res n st)))\<lparr>alarm_active := alarm_active st\<rparr> = st"
  by (simp add: alarm_control_content_def Let_def split: option.splits prod.splits)

lemma tcp_server_recv_state:
  "(snd (tcp_server_recv conv lw con pcb p st))\<lparr>alarm_active := alarm_active st\<rparr> = st"
  by (simp add: tcp_server_recv_def Let_def case_prod_beta alarm_control_content_state
      split: option.splits)

lemma tcp_server_recv_keeps_server:
  "complete (snd (tcp_server_recv conv lw con pcb p st)) = complete st \<and>
   server_pcb (snd (tcp_server_recv conv lw con pcb p st)) = server_pcb st"
proof -
  have "complete ((snd (tcp_server_recv conv lw con pcb p st))\<lparr>alarm_active := alarm_active st\<rparr>) = complete st"
    and "server_pcb ((snd (tcp_server_recv conv lw con pcb p st))\<lparr>alarm_active := alarm_active st\<rparr>) = server_pcb st"
    by (simp_all only: tcp_server_recv_state)
  then show ?thesis by simp
qed

subsection \<open>The actuator tick\<close>

text \<open>
  C3, as the claim states it, fails: a request that switches the alarm off while a beep
  is running leaves \<open>beep_active\<close> set, with \<open>alarm_active\<close> cleared.
\<close>

theorem C3_counterexample:
  "beep_active (snd (tcp_server_recv saturating lwip_ok calloc_TCP_CONNECT_STATE_T new_client_pcb
      (Some ''GET /alarm?alarm=0 HTTP/1.1'') beeping_state)) \<and>
   \<not> alarm_active (snd (tcp_server_recv saturating lwip_ok calloc_TCP_CONNECT_STATE_T new_client_pcb
      (Some ''GET /alarm?alarm=0 HTTP/1.1'') beeping_state))"
  by code_simp

text \<open>
  C3, amended: after every actuator tick \<open>beep_active\<close> implies \<open>alarm_active\<close>; a
  tick with the alarm off clears the pulse flag and switches the LED and the buzzer
  off; the content generator changes no field of the server state other than
  \<open>alarm_active\<close> (and has no access to the outputs), so after a request that switches
  the alarm off it is the next tick that forces the outputs off.
\<close>

theorem C3_invariant_by_tick:
  "(beep_active (fst (update_alarm clk (st, out))) \<longrightarrow> alarm_active (fst (update_alarm clk (st, out)))) \<and>
   (\<not> alarm_active st \<longrightarrow>
      \<not> beep_active (fst (update_alarm clk (st, out))) \<and>
      \<not> red_led (snd (update_alarm clk (st, out))) \<and>
      pwm_level (snd (update_alarm clk (st, out))) = 0) \<and>
   (snd (snd (alarm_control_content conv request params res n st)))\<lparr>alarm_active := alarm_active st\<rparr> = st"
proof (intro conjI impI)
  assume "beep_active (fst (update_alarm clk (st, out)))"
  then show "alarm_active (fst (update_alarm clk (st, out)))"
    by (auto simp: update_alarm_def toggle_step_def Let_def split: if_splits prod.splits)
next
  assume off: "\<not> alarm_active st"
  then show "\<not> beep_active (fst (update_alarm clk (st, out)))"
    and "\<not> red_led (snd (update_alarm clk (st, out)))"
    and "pwm_level (snd (update_alarm clk (st, out))) = 0"
    by (simp_all add: update_alarm_def)
next
  show "(snd (snd (alarm_control_content conv request params res n st)))\<lparr>alarm_active := alarm_active st\<rparr> = st"
    by (rule alarm_control_content_state)
qed

theorem C3_invariant_by_tick_witness:
  "beep_active (fst (update_alarm (at_time 100000) (beeping_state, outputs_off))) \<and>
   alarm_active (fst (update_alarm (at_time 100000) (beeping_state, outputs_off))) \<and>
   \<not> alarm_active (beeping_state\<lparr>alarm_active := False\<rparr>) \<and>
   \<not> beep_active (fst (update_alarm (at_time 100000) (beeping_state\<lparr>alarm_active := False\<rparr>, outputs_off)))"
  using C3_invariant_by_tick [of "at_time 100000" beeping_state outputs_off]
    C3_invariant_by_tick [of "at_time 100000" "beeping_state\<lparr>alarm_active := False\<rparr>" outputs_off]
  by (simp add: beeping_state_def idle_state_def outputs_off_def at_time_def update_alarm_def
      toggle_step_def absolute_time_diff_us_def delayed_by_us_def BEEP_DURATION_MS_def
      BEEP_INTERVAL_MS_def)

text \<open>
  C4 does not hold of the code: the pulse duration (200 ms) is not shorter but longer
  than the toggle interval (100 ms). With the alarm switched on at time 0 and a tick
  every 10 ms, the buzzer is switched on at 0 with its end set to 200 ms and the next
  toggle to 100 ms; at 90 ms it still sounds, with the LED lit; at 100 ms the toggle
  switches LED and buzzer off together, before the end of the pulse is reached. So the
  test of \<open>beep_end_time\<close> does not end the pulse, and the buzzer sounds for as long
  as the LED is lit.
\<close>

theorem C4_pulse_ended_by_toggle:
  "\<not> BEEP_DURATION_MS < BEEP_INTERVAL_MS \<and>
   beep_active (fst (ticks [0] (armed_state, outputs_off))) \<and>
   beep_end_time (fst (ticks [0] (armed_state, outputs_off))) = 200000 \<and>
   next_toggle_time (fst (ticks [0] (armed_state, outputs_off))) = 100000 \<and>
   beep_active (fst (ticks [0, 10000, 20000, 30000, 40000, 50000, 60000, 70000, 80000, 90000]
      (armed_state, outputs_off))) \<and>
   red_led (snd (ticks [0, 10000, 20000, 30000, 40000, 50000, 60000, 70000, 80000, 90000]
      (armed_state, outputs_off))) \<and>
   pwm_level (snd (ticks [0, 10000, 20000, 30000, 40000, 50000, 60000, 70000, 80000, 90000]
      (armed_state, outputs_off))) = PWM_WRAP div 2 \<and>
   \<not> beep_active (fst (ticks [0, 10000, 20000, 30000, 40000, 50000, 60000, 70000, 80000, 90000, 100000]
      (armed_state, outputs_off))) \<and>
   \<not> red_led (snd (ticks [0, 10000, 20000, 30000, 40000, 50000, 60000, 70000, 80000, 90000, 100000]
      (armed_state, outputs_off))) \<and>
   100000 < beep_end_time (fst (ticks [0, 10000, 20000, 30000, 40000, 50000, 60000, 70000, 80000, 90000, 100000]
      (armed_state, outputs_off)))"
  by (simp add: ticks_def update_alarm_def toggle_step_def at_time_def armed_state_def idle_state_def
      outputs_off_def absolute_time_diff_us_def delayed_by_us_def BEEP_DURATION_MS_def
      BEEP_INTERVAL_MS_def PWM_WRAP_def)

subsection \<open>Capacity of the body buffer\<close>

text \<open>
  C8: when the length returned by the content generator exceeds what the body array
  holds besides its terminator, the connection is closed with \<^verbatim>\<open>ERR_CLSD\<close> (aborted
  with \<^verbatim>\<open>ERR_ABRT\<close> should \<^verbatim>\<open>tcp_close\<close> fail), its state is freed and nothing is
  handed to \<^verbatim>\<open>tcp_write\<close>; no receive event changes the listening socket or the
  completion flag of the server.
\<close>

theorem C8_body_too_large:
  assumes "int (sizeof_result - 1) < result_len con" and "result_len con \<le> INT_MAX"
  shows "send_response lw con pcb gateway tot_len =
           (if tcp_close_ret lw = ERR_OK then ERR_CLSD else ERR_ABRT, None,
            pcb\<lparr>callbacks := False,
                conn := (if tcp_close_ret lw = ERR_OK then CLOSED else ABORTED)\<rparr>) \<and>
         written (snd (snd (send_response lw con pcb gateway tot_len))) = written pcb \<and>
         complete (snd (tcp_server_recv conv lw con0 pcb0 p st)) = complete st \<and>
         server_pcb (snd (tcp_server_recv conv lw con0 pcb0 p st)) = server_pcb st"
proof -
  from assms have "int (sizeof_result - 1) < result_len con mod 2 ^ 32"
    by (simp add: INT_MAX_def sizeof_result_def)
  then have "send_response lw con pcb gateway tot_len =
           (if tcp_close_ret lw = ERR_OK then ERR_CLSD else ERR_ABRT, None,
            pcb\<lparr>callbacks := False,
                conn := (if tcp_close_ret lw = ERR_OK then CLOSED else ABORTED)\<rparr>)"
    by (simp add: send_response_def close_client_eq)
  then show ?thesis
    using tcp_server_recv_keeps_server [of conv lw con0 pcb0 p st] by simp
qed

theorem C8_body_too_large_witness:
  "int (sizeof_result - 1) < result_len (calloc_TCP_CONNECT_STATE_T\<lparr>result_len := 300\<rparr>) \<and>
   result_len (calloc_TCP_CONNECT_STATE_T\<lparr>result_len := 300\<rparr>) \<le> INT_MAX \<and>
   send_response lwip_ok (calloc_TCP_CONNECT_STATE_T\<lparr>result_len := 300\<rparr>) new_client_pcb
       (192, 168, 4, 1) 20 =
     (ERR_CLSD, None, \<lparr>callbacks = False, conn = CLOSED, written = [], recved = 0\<rparr>)"
proof -
  have h1: "int (sizeof_result - 1) < result_len (calloc_TCP_CONNECT_STATE_T\<lparr>result_len := 300\<rparr>)"
    by (simp add: sizeof_result_def)
  have h2: "result_len (calloc_TCP_CONNECT_STATE_T\<lparr>result_len := 300\<rparr>) \<le> INT_MAX"
    by (simp add: INT_MAX_def)
  show ?thesis
    using h1 h2 C8_body_too_large [OF h1 h2, of lwip_ok new_client_pcb "(192, 168, 4, 1)" 20]
    by (simp add: lwip_ok_def new_client_pcb_def)
qed

subsection \<open>Comparing C strings\<close>

lemma of_char_eq_0_iff: "(of_char c = (0::int)) = (c = NUL)"
proof -
  have "(of_char c = (of_char NUL :: int)) = (c = NUL)" by (rule of_char_eq_iff)
  then show ?thesis by (simp add: NUL_def)
qed

lemma strncmp_eq_0_iff:
  "NUL \<notin> set a \<Longrightarrow> NUL \<notin> set b \<Longrightarrow> (strncmp a b n = 0) = (take n a = take n b)"
proof (induction a b n rule: strncmp.induct)
  case (1 n)
  then show ?case by simp
next
  case (2 b bs n)
  then show ?case by (cases n) (auto simp: of_char_eq_0_iff)
next
  case (3 a as n)
  then show ?case by (cases n) (auto simp: of_char_eq_0_iff)
next
  case (4 a as b bs n)
  then show ?case by (cases n) (auto simp: of_char_eq_iff)
qed

lemma cstr_NUL_free: "NUL \<notin> set (cstr buf i)"
  by (auto simp: cstr_def dest: set_takeWhileD)

lemma take_takeWhile_eq:
  "\<forall>x\<in>set s. P x \<Longrightarrow> (take (length s) (takeWhile P h) = s) = (take (length s) h = s)"
proof (induction s arbitrary: h)
  case Nil
  then show ?case by simp
next
  case (Cons x s)
  then show ?case by (cases h) auto
qed

lemma strncmp_GET:
  "(strncmp HTTP_GET (cstr h 0) (length HTTP_GET) = 0) = (take (length HTTP_GET) h = HTTP_GET)"
proof -
  have "NUL \<notin> set HTTP_GET"
    by (simp add: HTTP_GET_def NUL_def)
  then have "(strncmp HTTP_GET (cstr h 0) (length HTTP_GET) = 0) =
      (take (length HTTP_GET) (cstr h 0) = HTTP_GET)"
    by (auto simp: strncmp_eq_0_iff cstr_NUL_free)
  also have "\<dots> = (take (length HTTP_GET) h = HTTP_GET)"
    unfolding cstr_def drop_0
    by (rule take_takeWhile_eq) (simp add: HTTP_GET_def NUL_def)
  finally show ?thesis .
qed

lemma strncmp_ALARM_CONTROL:
  "NUL \<notin> set request \<Longrightarrow>
   (strncmp request ALARM_CONTROL (length ALARM_CONTROL) = 0) =
   (take (length ALARM_CONTROL) request = ALARM_CONTROL)"
proof -
  assume "NUL \<notin> set request"
  moreover have "NUL \<notin> set ALARM_CONTROL"
    by (simp add: ALARM_CONTROL_def NUL_def)
  ultimately show ?thesis
    by (simp add: strncmp_eq_0_iff)
qed

subsection \<open>Requests that are not GET\<close>

text \<open>
  C6, as the claim states it, fails: only the first three bytes are compared with
  \<^verbatim>\<open>GET\<close>, and the byte after them is skipped unseen. A request with the method
  \<^verbatim>\<open>GETX\<close> does not begin with the token \<^verbatim>\<open>GET\<close> and is answered with the
  redirect; the request \<^verbatim>\<open>GETS/alarm?alarm=1\<close> is answered with the page and switches
  the alarm on.
\<close>

theorem C6_counterexample:
  "take (length HTTP_GET + 1) ''GETX /alarm HTTP/1.1'' \<noteq> HTTP_GET @ '' '' \<and>
   takeWhile (\<lambda>c. c \<noteq> CHR '' '') ''GETX /alarm HTTP/1.1'' = ''GETX'' \<and>
   written (snd (snd (fst (tcp_server_recv saturating lwip_ok calloc_TCP_CONNECT_STATE_T new_client_pcb
      (Some ''GETX /alarm HTTP/1.1'') idle_state)))) =
     [''HTTP/1.1 302 Redirect\<newline>Location: http://192.168.4.1/alarm\<newline>\<newline>''] \<and>
   take (length HTTP_GET + 1) ''GETS/alarm?alarm=1 HTTP/1.1'' \<noteq> HTTP_GET @ '' '' \<and>
   alarm_active (snd (tcp_server_recv saturating lwip_ok calloc_TCP_CONNECT_STATE_T new_client_pcb
      (Some ''GETS/alarm?alarm=1 HTTP/1.1'') idle_state)) \<and>
   written (snd (snd (fst (tcp_server_recv saturating lwip_ok calloc_TCP_CONNECT_STATE_T new_client_pcb
      (Some ''GETS/alarm?alarm=1 HTTP/1.1'') idle_state)))) =
     [HTTP_RESPONSE_HEADERS 200 205, ALARM_CONTROL_BODY ''ATIVADO'' 0 ''Desligar'']"
  by code_simp

text \<open>
  C6, amended: when the first three bytes of \<^verbatim>\<open>headers\<close> after the copy of the
  request are not \<^verbatim>\<open>GET\<close>, \<^verbatim>\<open>tcp_server_recv\<close> returns \<^verbatim>\<open>ERR_OK\<close>, generates no
  content, hands nothing to \<^verbatim>\<open>tcp_write\<close>, leaves the server state as it is and
  keeps the connection open with its callbacks; only the copied bytes and the receive
  window change.
\<close>

theorem C6_non_GET_dropped:
  assumes "take (length HTTP_GET)
             (pbuf_copy_partial payload (headers con) (min (length payload) (sizeof_headers - 1)))
           \<noteq> HTTP_GET"
  shows "tcp_server_recv conv lw con pcb (Some payload) st =
           ((ERR_OK,
             Some (con\<lparr>headers :=
                     pbuf_copy_partial payload (headers con) (min (length payload) (sizeof_headers - 1))\<rparr>),
             pcb\<lparr>recved := recved pcb + length payload\<rparr>), st) \<and>
         written (snd (snd (fst (tcp_server_recv conv lw con pcb (Some payload) st)))) = written pcb"
proof -
  have "tcp_server_recv conv lw con pcb (Some payload) st =
           ((ERR_OK,
             Some (con\<lparr>headers :=
                     pbuf_copy_partial payload (headers con) (min (length payload) (sizeof_headers - 1))\<rparr>),
             pcb\<lparr>recved := recved pcb + length payload\<rparr>), st)"
  proof (cases "payload = []")
    case True
    then show ?thesis
      by (simp add: tcp_server_recv_def pbuf_copy_partial_def)
  next
    case False
    with assms show ?thesis
      by (auto simp: tcp_server_recv_def Let_def strncmp_GET min_def)
  qed
  then show ?thesis by simp
qed

theorem C6_non_GET_dropped_witness:
  "take (length HTTP_GET)
     (pbuf_copy_partial ''POST /alarm?alarm=1 HTTP/1.1'' (headers calloc_TCP_CONNECT_STATE_T)
        (min (length ''POST /alarm?alarm=1 HTTP/1.1'') (sizeof_headers - 1))) \<noteq> HTTP_GET \<and>
   fst (fst (tcp_server_recv saturating lwip_ok calloc_TCP_CONNECT_STATE_T new_client_pcb
      (Some ''POST /alarm?alarm=1 HTTP/1.1'') idle_state)) = ERR_OK \<and>
   snd (tcp_server_recv saturating lwip_ok calloc_TCP_CONNECT_STATE_T new_client_pcb
      (Some ''POST /alarm?alarm=1 HTTP/1.1'') idle_state) = idle_state \<and>
   written (snd (snd (fst (tcp_server_recv saturating lwip_ok calloc_TCP_CONNECT_STATE_T new_client_pcb
      (Some ''POST /alarm?alarm=1 HTTP/1.1'') idle_state)))) = []"
proof -
  have h: "take (length HTTP_GET)
     (pbuf_copy_partial ''POST /alarm?alarm=1 HTTP/1.1'' (headers calloc_TCP_CONNECT_STATE_T)
        (min (length ''POST /alarm?alarm=1 HTTP/1.1'') (sizeof_headers - 1))) \<noteq> HTTP_GET"
    by (simp add: HTTP_GET_def pbuf_copy_partial_def sizeof_headers_def)
  show ?thesis
    using h C6_non_GET_dropped [OF h, of saturating lwip_ok new_client_pcb idle_state]
    by (simp add: new_client_pcb_def)
qed

subsection \<open>Acknowledged bytes\<close>







subsection \<open>Decimal text read back\<close>

lemma strncmp_take_eq: "take n a = take n b \<Longrightarrow> strncmp a b n = 0"
proof (induction a b n rule: strncmp.induct)
  case (4 a as b bs n)
  then show ?case by (cases n) auto
qed auto

lemma of_char_digit_char: "d < 10 \<Longrightarrow> of_char (digit_char d) = (48 + d :: nat)"
  by (simp add: digit_char_def)

lemma isdigit_digit_char: "d < 10 \<Longrightarrow> isdigit (digit_char d)"
  by (simp add: isdigit_def of_char_digit_char)

lemma digit_val_digit_char: "d < 10 \<Longrightarrow> digit_val (digit_char d) = int d"
proof -
  assume d: "d < 10"
  have "(of_char (digit_char d) :: int) = int (of_char (digit_char d))"
    by (simp add: of_char_def)
  with d show ?thesis
    by (simp add: digit_val_def of_char_digit_char)
qed

lemma dec_nat_digits: "c \<in> set (dec_nat n) \<Longrightarrow> isdigit c"
proof (induction n rule: dec_nat.induct)
  case (1 n)
  show ?case
  proof (cases "n < 10")
    case True
    with "1.prems" show ?thesis
      by (subst (asm) dec_nat.simps) (simp add: isdigit_digit_char)
  next
    case False
    with "1.prems" "1.IH" show ?thesis
      by (subst (asm) dec_nat.simps) (auto simp: isdigit_digit_char)
  qed
qed

lemma dec_nat_not_Nil: "dec_nat n \<noteq> []"
  by (subst dec_nat.simps) simp

lemma dec_nat_value: "foldl (\<lambda>a c. 10 * a + digit_val c) 0 (dec_nat n) = int n"
proof (induction n rule: dec_nat.induct)
  case (1 n)
  show ?case
  proof (cases "n < 10")
    case True
    then show ?thesis
      by (subst dec_nat.simps) (simp add: digit_val_digit_char)
  next
    case False
    then have "foldl (\<lambda>a c. 10 * a + digit_val c) 0 (dec_nat n) =
        10 * int (n div 10) + int (n mod 10)"
      using "1.IH" by (subst dec_nat.simps) (simp add: digit_val_digit_char)
    also have "\<dots> = int n"
      by presburger
    finally show ?thesis .
  qed
qed

lemma dec_nat_hd: "\<exists>c cs. dec_nat n = c # cs \<and> isdigit c"
proof (cases "dec_nat n")
  case Nil
  then show ?thesis by (simp add: dec_nat_not_Nil)
next
  case (Cons c cs)
  then have "c \<in> set (dec_nat n)" by simp
  then have "isdigit c" by (rule dec_nat_digits)
  with Cons show ?thesis by simp
qed

lemma isdigit_not_space: "isdigit c \<Longrightarrow> \<not> isspace c"
  by (auto simp: isdigit_def isspace_def)

lemma isdigit_not_sign: "isdigit c \<Longrightarrow> c \<noteq> CHR ''-'' \<and> c \<noteq> CHR ''+''"
  by (auto simp: isdigit_def)

lemma digit_char_values:
  "digit_char 0 = CHR ''0''" "digit_char 1 = CHR ''1''" "digit_char 2 = CHR ''2''"
  "digit_char 3 = CHR ''3''" "digit_char 4 = CHR ''4''" "digit_char 5 = CHR ''5''"
  "digit_char 6 = CHR ''6''" "digit_char 7 = CHR ''7''" "digit_char 8 = CHR ''8''"
  "digit_char 9 = CHR ''9''" "digit_char (Suc 0) = CHR ''1''"
  by code_simp+

lemma scan_d_dec_nat:
  "scan_d conv (dec_nat n) =
     Some (if INT_MIN \<le> int n \<and> int n \<le> INT_MAX then int n else conv (int n))"
proof -
  obtain c cs where d: "dec_nat n = c # cs" "isdigit c"
    using dec_nat_hd by blast
  have all: "takeWhile isdigit (dec_nat n) = dec_nat n"
    by (simp add: dec_nat_digits)
  from d have "dropWhile isspace (dec_nat n) = dec_nat n"
    by (simp add: isdigit_not_space)
  moreover from d have "scan_sign (dec_nat n) = (False, dec_nat n)"
    by (simp add: scan_sign_def isdigit_not_sign)
  ultimately show ?thesis
    by (simp add: scan_d_def all dec_nat_not_Nil dec_nat_value Let_def)
qed

lemma scan_d_minus_dec_nat:
  "scan_d conv (CHR ''-'' # dec_nat n) =
     Some (if INT_MIN \<le> - int n \<and> - int n \<le> INT_MAX then - int n else conv (- int n))"
proof -
  have all: "takeWhile isdigit (dec_nat n) = dec_nat n"
    by (simp add: dec_nat_digits)
  have "\<not> isspace CHR ''-''"
    by (simp add: isspace_def)
  then have "dropWhile isspace (CHR ''-'' # dec_nat n) = CHR ''-'' # dec_nat n"
    by simp
  moreover have "scan_sign (CHR ''-'' # dec_nat n) = (True, dec_nat n)"
    by (simp add: scan_sign_def)
  ultimately show ?thesis
    by (simp add: scan_d_def all dec_nat_not_Nil dec_nat_value Let_def)
qed

lemma scan_d_dec_int:
  "scan_d conv (dec_int n) = Some (if INT_MIN \<le> n \<and> n \<le> INT_MAX then n else conv n)"
  by (simp add: dec_int_def scan_d_dec_nat scan_d_minus_dec_nat)

lemma sscanf_ALARM_PARAM_dec_int:
  "sscanf_ALARM_PARAM conv (''alarm='' @ dec_int n) =
     Some (if INT_MIN \<le> n \<and> n \<le> INT_MAX then n else conv n)"
  by (simp add: sscanf_ALARM_PARAM_def scan_d_dec_int)

subsection \<open>The generated page\<close>

lemma alarm_control_content_toggle:
  assumes "take (length ALARM_CONTROL) request = ALARM_CONTROL"
    and "sscanf_ALARM_PARAM conv p = Some v"
  shows "alarm_active (snd (snd (alarm_control_content conv request (Some p) res max_result_len st)))
    = (v \<noteq> 0)"
  using assms
  by (simp add: alarm_control_content_def strncmp_take_eq case_prod_beta)

lemma ALARM_CONTROL_BODY_length:
  "length (ALARM_CONTROL_BODY ''ATIVADO'' 0 ''Desligar'') = 205"
  "length (ALARM_CONTROL_BODY ''DESATIVADO'' 1 ''Ligar'') = 205"
  by (simp_all add: ALARM_CONTROL_BODY_def dec_int_def dec_nat.simps)

lemma snprintf_fits:
  "length s < n \<Longrightarrow>
   snprintf buf n s = (s @ NUL # drop (Suc (length s)) buf, int (length s))"
  by (simp add: snprintf_def)

lemma alarm_control_content_page:
  assumes "take (length ALARM_CONTROL) request = ALARM_CONTROL"
  shows "alarm_control_content conv request params res sizeof_result st =
    (let st1 = (case params of None \<Rightarrow> st
                | Some p \<Rightarrow> (case sscanf_ALARM_PARAM conv p of
                      None \<Rightarrow> st | Some v \<Rightarrow> st\<lparr>alarm_active := (v \<noteq> 0)\<rparr>));
         body = (if alarm_active st1 then ALARM_CONTROL_BODY ''ATIVADO'' 0 ''Desligar''
                 else ALARM_CONTROL_BODY ''DESATIVADO'' 1 ''Ligar'')
     in (205, body @ NUL # drop 206 res, st1))"
  using assms
  by (simp add: alarm_control_content_def strncmp_take_eq Let_def snprintf_fits
      ALARM_CONTROL_BODY_length sizeof_result_def)

lemma ALARM_CONTROL_BODY_on:
  \<open>ALARM_CONTROL_BODY ''ATIVADO'' 0 ''Desligar'' =
     ''<html><body style="text-align:center;margin-top:50px"><h1>Alarme</h1><p>ATIVADO</p><a href="?alarm=0" style="background:#4CAF50;color:white;padding:5px 10px;text-decoration:none">Desligar</a></body></html>''\<close>
  by code_simp

lemma ALARM_CONTROL_BODY_off:
  \<open>ALARM_CONTROL_BODY ''DESATIVADO'' 1 ''Ligar'' =
     ''<html><body style="text-align:center;margin-top:50px"><h1>Alarme</h1><p>DESATIVADO</p><a href="?alarm=1" style="background:#4CAF50;color:white;padding:5px 10px;text-decoration:none">Ligar</a></body></html>''\<close>
  by code_simp

text \<open>
  C2: for a request string that begins with \<^verbatim>\<open>/alarm\<close> and a parameter from which
  \<^verbatim>\<open>sscanf\<close> reads 0 or 1, the generator first sets \<open>alarm_active\<close> to that value
  and then renders. The 205 bytes of the page are, when the alarm is now on, the page
  with the status \<^verbatim>\<open>ATIVADO\<close>, the link to \<^verbatim>\<open>?alarm=0\<close> and the label
  \<^verbatim>\<open>Desligar\<close>; when it is now off, the page with the status \<^verbatim>\<open>DESATIVADO\<close>, the
  link to \<^verbatim>\<open>?alarm=1\<close> and the label \<^verbatim>\<open>Ligar\<close>.
\<close>

theorem C2_toggle_then_render:
  assumes \<open>take (length ALARM_CONTROL) request = ALARM_CONTROL\<close>
    and \<open>sscanf_ALARM_PARAM conv p = Some v\<close>
    and \<open>v = 0 \<or> v = 1\<close>
  shows \<open>alarm_active (snd (snd (alarm_control_content conv request (Some p) res sizeof_result st)))
           = (v = 1) \<and>
         fst (alarm_control_content conv request (Some p) res sizeof_result st) = 205 \<and>
         take 205 (fst (snd (alarm_control_content conv request (Some p) res sizeof_result st))) =
           (if alarm_active (snd (snd (alarm_control_content conv request (Some p) res sizeof_result st)))
            then ''<html><body style="text-align:center;margin-top:50px"><h1>Alarme</h1><p>ATIVADO</p><a href="?alarm=0" style="background:#4CAF50;color:white;padding:5px 10px;text-decoration:none">Desligar</a></body></html>''
            else ''<html><body style="text-align:center;margin-top:50px"><h1>Alarme</h1><p>DESATIVADO</p><a href="?alarm=1" style="background:#4CAF50;color:white;padding:5px 10px;text-decoration:none">Ligar</a></body></html>'')\<close>
proof -
  have len: "length (ALARM_CONTROL_BODY ''ATIVADO'' 0 ''Desligar'') = 205"
    "length (ALARM_CONTROL_BODY ''DESATIVADO'' 1 ''Ligar'') = 205"
    by (rule ALARM_CONTROL_BODY_length)+
  from assms(2,3) have
    "alarm_control_content conv request (Some p) res sizeof_result st =
       (205,
        (if v = 1 then ALARM_CONTROL_BODY ''ATIVADO'' 0 ''Desligar''
         else ALARM_CONTROL_BODY ''DESATIVADO'' 1 ''Ligar'') @ NUL # drop 206 res,
        st\<lparr>alarm_active := (v = 1)\<rparr>)"
    by (auto simp: alarm_control_content_page [OF assms(1)])
  then show ?thesis
    using len by (auto simp: ALARM_CONTROL_BODY_on [symmetric] ALARM_CONTROL_BODY_off [symmetric])
qed

theorem C2_toggle_then_render_witness:
  \<open>take (length ALARM_CONTROL) ''/alarm'' = ALARM_CONTROL \<and>
   sscanf_ALARM_PARAM saturating ''alarm=0'' = Some 0 \<and>
   \<not> alarm_active (snd (snd (alarm_control_content saturating ''/alarm'' (Some ''alarm=0'')
        (replicate sizeof_result NUL) sizeof_result beeping_state))) \<and>
   take 205 (fst (snd (alarm_control_content saturating ''/alarm'' (Some ''alarm=0'')
        (replicate sizeof_result NUL) sizeof_result beeping_state))) =
     ''<html><body style="text-align:center;margin-top:50px"><h1>Alarme</h1><p>DESATIVADO</p><a href="?alarm=1" style="background:#4CAF50;color:white;padding:5px 10px;text-decoration:none">Ligar</a></body></html>'' \<and>
   sscanf_ALARM_PARAM saturating ''alarm=1'' = Some 1 \<and>
   alarm_active (snd (snd (alarm_control_content saturating ''/alarm'' (Some ''alarm=1'')
        (replicate sizeof_result NUL) sizeof_result idle_state))) \<and>
   take 205 (fst (snd (alarm_control_content saturating ''/alarm'' (Some ''alarm=1'')
        (replicate sizeof_result NUL) sizeof_result idle_state))) =
     ''<html><body style="text-align:center;margin-top:50px"><h1>Alarme</h1><p>ATIVADO</p><a href="?alarm=0" style="background:#4CAF50;color:white;padding:5px 10px;text-decoration:none">Desligar</a></body></html>''\<close>
proof -
  have h: "take (length ALARM_CONTROL) ''/alarm'' = ALARM_CONTROL"
    by (simp add: ALARM_CONTROL_def)
  have p0: "sscanf_ALARM_PARAM saturating ''alarm=0'' = Some 0"
    and p1: "sscanf_ALARM_PARAM saturating ''alarm=1'' = Some 1"
    by code_simp+
  show ?thesis
    using h p0 p1
      C2_toggle_then_render [OF h p0, of "replicate sizeof_result NUL" beeping_state]
      C2_toggle_then_render [OF h p1, of "replicate sizeof_result NUL" idle_state]
    by simp
qed

lemma dec_int_two_to_32: "''alarm='' @ dec_int 4294967296 = ''alarm=4294967296''"
  by (simp add: dec_int_def dec_nat.simps digit_char_values)

lemma dec_int_INT_MIN: "''alarm='' @ dec_int INT_MIN = ''alarm=-2147483648''"
  by (simp add: INT_MIN_def dec_int_def dec_nat.simps digit_char_values)

lemma sscanf_ALARM_PARAM_truncated:
  "sscanf_ALARM_PARAM truncating ''alarm=4294967296'' = Some 0"
  by (simp add: sscanf_ALARM_PARAM_def scan_d_def scan_sign_def isspace_def isdigit_def
      digit_val_def INT_MIN_def INT_MAX_def truncating_def)

text \<open>
  C10, as the claim states it, fails for numbers outside the range of \<^verbatim>\<open>int\<close>: with a
  C library that keeps the low 32 bits, \<^verbatim>\<open>alarm=4294967296\<close> stores 0 and leaves the
  alarm off, though the number is not 0.
\<close>

theorem C10_counterexample:
  "''alarm='' @ dec_int 4294967296 = ''alarm=4294967296'' \<and>
   sscanf_ALARM_PARAM truncating ''alarm=4294967296'' = Some 0 \<and>
   alarm_active (snd (snd (alarm_control_content truncating ''/alarm'' (Some ''alarm=4294967296'')
      (replicate sizeof_result NUL) sizeof_result idle_state))) \<noteq> ((4294967296 :: int) \<noteq> 0)"
proof -
  have h: "take (length ALARM_CONTROL) ''/alarm'' = ALARM_CONTROL"
    by (simp add: ALARM_CONTROL_def)
  have "\<not> alarm_active (snd (snd (alarm_control_content truncating ''/alarm''
      (Some ''alarm=4294967296'') (replicate sizeof_result NUL) sizeof_result idle_state)))"
    using alarm_control_content_toggle [OF h sscanf_ALARM_PARAM_truncated,
        of "replicate sizeof_result NUL" sizeof_result idle_state]
    by simp
  with dec_int_two_to_32 sscanf_ALARM_PARAM_truncated show ?thesis by simp
qed

text \<open>
  C10, amended: for every integer \<open>n\<close> in the range of \<^verbatim>\<open>int\<close>, whatever the C
  library does outside that range, the parameter \<^verbatim>\<open>alarm=\<close> followed by the decimal
  text of \<open>n\<close> is converted by \<^verbatim>\<open>sscanf\<close> to \<open>n\<close> and sets \<open>alarm_active\<close> to
  \<open>n \<noteq> 0\<close>; so \<^verbatim>\<open>alarm=2\<close> and \<^verbatim>\<open>alarm=-1\<close> switch the alarm on.
\<close>

theorem C10_any_int:
  assumes "take (length ALARM_CONTROL) request = ALARM_CONTROL"
    and "INT_MIN \<le> n" and "n \<le> INT_MAX"
  shows "sscanf_ALARM_PARAM conv (''alarm='' @ dec_int n) = Some n \<and>
         alarm_active (snd (snd (alarm_control_content conv request (Some (''alarm='' @ dec_int n))
            res max_result_len st))) = (n \<noteq> 0)"
proof -
  have s: "sscanf_ALARM_PARAM conv (''alarm='' @ dec_int n) = Some n"
    using assms(2,3) sscanf_ALARM_PARAM_dec_int [of conv n] by (simp only: conj_absorb if_True simp_thms)
  show ?thesis
    using alarm_control_content_toggle [OF assms(1) s, of res max_result_len st] s
    by (simp only:)
qed

theorem C10_any_int_witness:
  "take (length ALARM_CONTROL) ''/alarm'' = ALARM_CONTROL \<and>
   INT_MIN \<le> 2 \<and> 2 \<le> INT_MAX \<and> INT_MIN \<le> - 1 \<and> - 1 \<le> INT_MAX \<and>
   INT_MIN \<le> INT_MIN \<and> INT_MIN \<le> INT_MAX \<and> INT_MIN \<le> 0 \<and> 0 \<le> INT_MAX \<and>
   ''alarm='' @ dec_int 2 = ''alarm=2'' \<and>
   alarm_active (snd (snd (alarm_control_content truncating ''/alarm'' (Some (''alarm='' @ dec_int 2))
      (replicate sizeof_result NUL) sizeof_result idle_state))) \<and>
   ''alarm='' @ dec_int (- 1) = ''alarm=-1'' \<and>
   alarm_active (snd (snd (alarm_control_content truncating ''/alarm'' (Some (''alarm='' @ dec_int (- 1)))
      (replicate sizeof_result NUL) sizeof_result idle_state))) \<and>
   ''alarm='' @ dec_int INT_MIN = ''alarm=-2147483648'' \<and>
   alarm_active (snd (snd (alarm_control_content truncating ''/alarm'' (Some (''alarm='' @ dec_int INT_MIN))
      (replicate sizeof_result NUL) sizeof_result idle_state))) \<and>
   \<not> alarm_active (snd (snd (alarm_control_content truncating ''/alarm'' (Some (''alarm='' @ dec_int 0))
      (replicate sizeof_result NUL) sizeof_result beeping_state)))"
proof -
  have h: "take (length ALARM_CONTROL) ''/alarm'' = ALARM_CONTROL"
    by (simp add: ALARM_CONTROL_def)
  have r: "INT_MIN \<le> 2" "2 \<le> INT_MAX" "INT_MIN \<le> - 1" "- 1 \<le> INT_MAX"
    "INT_MIN \<le> INT_MIN" "INT_MIN \<le> INT_MAX" "INT_MIN \<le> 0" "0 \<le> INT_MAX"
    by (simp_all add: INT_MIN_def INT_MAX_def)
  have d: "''alarm='' @ dec_int 2 = ''alarm=2''" "''alarm='' @ dec_int (- 1) = ''alarm=-1''"
    by (simp_all add: dec_int_def dec_nat.simps digit_char_values)
  have m: "INT_MIN \<noteq> 0"
    by (simp add: INT_MIN_def)
  have c1: "alarm_active (snd (snd (alarm_control_content truncating ''/alarm''
      (Some (''alarm='' @ dec_int 2)) (replicate sizeof_result NUL) sizeof_result idle_state)))"
    using C10_any_int [OF h r(1,2), of truncating "replicate sizeof_result NUL" sizeof_result idle_state]
    by (simp only: simp_thms)
  have c2: "alarm_active (snd (snd (alarm_control_content truncating ''/alarm''
      (Some (''alarm='' @ dec_int (- 1))) (replicate sizeof_result NUL) sizeof_result idle_state)))"
    using C10_any_int [OF h r(3,4), of truncating "replicate sizeof_result NUL" sizeof_result idle_state]
    by (simp only: simp_thms)
  have c3: "alarm_active (snd (snd (alarm_control_content truncating ''/alarm''
      (Some (''alarm='' @ dec_int INT_MIN)) (replicate sizeof_result NUL) sizeof_result idle_state)))"
    using m C10_any_int [OF h r(5,6), of truncating "replicate sizeof_result NUL" sizeof_result idle_state]
    by (simp only: simp_thms)
  have c4: "\<not> alarm_active (snd (snd (alarm_control_content truncating ''/alarm''
      (Some (''alarm='' @ dec_int 0)) (replicate sizeof_result NUL) sizeof_result beeping_state)))"
    using C10_any_int [OF h r(7,8), of truncating "replicate sizeof_result NUL" sizeof_result beeping_state]
    by (simp only: simp_thms)
  show ?thesis
    by (intro conjI h r d dec_int_INT_MIN c1 c2 c3 c4)
qed

subsection \<open>GET requests\<close>

lemma split_params_toggle_on:
  "split_params (''GET /alarm?alarm=1 '' @ tail) 4 =
     (''GET /alarm'' @ NUL # ''alarm=1'' @ NUL # tail, Some 11)"
  by (simp add: split_params_def strchr_def cstr_def NUL_def Let_def)

lemma cstr_toggle_on:
  "cstr (''GET /alarm'' @ NUL # ''alarm=1'' @ NUL # tail) 4 = ''/alarm''"
  "cstr (''GET /alarm'' @ NUL # ''alarm=1'' @ NUL # tail) 11 = ''alarm=1''"
  by (simp_all add: cstr_def NUL_def)

lemma pbuf_copy_partial_prefix:
  "length P \<le> sizeof_headers - 1 \<Longrightarrow>
   \<exists>tail. pbuf_copy_partial (P @ rest) h
      (if sizeof_headers - 1 < length (P @ rest) then sizeof_headers - 1 else length (P @ rest)) = P @ tail"
  by (simp add: pbuf_copy_partial_def)

lemma tcp_server_recv_GET:
  assumes "payload \<noteq> []"
    and "hdrs = pbuf_copy_partial payload (headers con)
           (if sizeof_headers - 1 < length payload then sizeof_headers - 1 else length payload)"
    and "take (length HTTP_GET) hdrs = HTTP_GET"
    and "split_params hdrs 4 = (hdrs2, params)"
    and "alarm_control_content conv (cstr hdrs2 4) (map_option (cstr hdrs2) params) (result con)
           sizeof_result st = (len, res, st1)"
  shows "tcp_server_recv conv lw con pcb (Some payload) st =
     (send_response lw (con\<lparr>headers := hdrs2, result := res, result_len := len\<rparr>) pcb (gw st1)
        (length payload), st1)"
proof -
  have "tcp_server_recv conv lw con pcb (Some payload) st =
      (if strncmp HTTP_GET (cstr hdrs 0) (length HTTP_GET) = 0 then
         (case split_params hdrs (length HTTP_GET + 1) of
            (h, ps) \<Rightarrow>
              (case alarm_control_content conv (cstr h (length HTTP_GET + 1))
                      (map_option (cstr h) ps) (result con) sizeof_result st of
                 (l, r, s) \<Rightarrow>
                   (send_response lw (con\<lparr>headers := h, result := r, result_len := l\<rparr>) pcb
                      (gw s) (length payload), s)))
       else ((ERR_OK, Some (con\<lparr>headers := hdrs\<rparr>),
              pcb\<lparr>recved := recved pcb + length payload\<rparr>), st))"
    using assms(1)
    by (simp only: tcp_server_recv_def option.case Let_def assms(2) [symmetric]) simp
  also have "length HTTP_GET + 1 = 4"
    by (simp add: HTTP_GET_def)
  finally show ?thesis
    using assms(3-5) by (simp add: strncmp_GET)
qed


lemma HTTP_RESPONSE_HEADERS_page:
  "HTTP_RESPONSE_HEADERS 200 205 =
     ''HTTP/1.1 200 OK\<newline>Content-Length: 205\<newline>Content-Type: text/html; charset=utf-8\<newline>Connection: close\<newline>\<newline>''"
  by code_simp

lemma HTTP_RESPONSE_HEADERS_page_length: "length (HTTP_RESPONSE_HEADERS 200 205) = 94"
  by (simp add: HTTP_RESPONSE_HEADERS_page)

lemma send_response_page_written:
  assumes "result_len con = 205"
  shows "written (snd (snd (send_response lw con pcb g tot))) =
     written pcb @
       (if tcp_write_headers lw \<noteq> ERR_OK then []
        else if tcp_write_result lw \<noteq> ERR_OK then [HTTP_RESPONSE_HEADERS 200 205]
        else [HTTP_RESPONSE_HEADERS 200 205, take 205 (result con)])"
  using assms
  by (simp add: send_response_def sizeof_result_def sizeof_headers_def snprintf_fits
      HTTP_RESPONSE_HEADERS_page_length write_response_def tcp_write_def close_client_eq Let_def)

lemma sscanf_ALARM_PARAM_1: "sscanf_ALARM_PARAM conv ''alarm=1'' = Some 1"
  by code_simp

lemma tcp_server_recv_toggle_on:
  "\<exists>hdrs2. tcp_server_recv conv lw con pcb (Some (''GET /alarm?alarm=1 '' @ rest)) st =
     (send_response lw
        (con\<lparr>headers := hdrs2,
             result := ALARM_CONTROL_BODY ''ATIVADO'' 0 ''Desligar'' @ NUL # drop 206 (result con),
             result_len := 205\<rparr>)
        pcb (gw st) (length (''GET /alarm?alarm=1 '' @ rest)),
      st\<lparr>alarm_active := True\<rparr>)"
proof -
  let ?P = "''GET /alarm?alarm=1 ''"
  have "length ?P \<le> sizeof_headers - 1"
    by (simp add: sizeof_headers_def)
  then obtain tail where copy: "pbuf_copy_partial (?P @ rest) (headers con)
      (if sizeof_headers - 1 < length (?P @ rest) then sizeof_headers - 1 else length (?P @ rest))
      = ?P @ tail"
    using pbuf_copy_partial_prefix by blast
  have get: "take (length HTTP_GET) (?P @ tail) = HTTP_GET"
    by (simp add: HTTP_GET_def)
  have page: "alarm_control_content conv
      (cstr (''GET /alarm'' @ NUL # ''alarm=1'' @ NUL # tail) 4)
      (map_option (cstr (''GET /alarm'' @ NUL # ''alarm=1'' @ NUL # tail)) (Some 11))
      (result con) sizeof_result st =
      (205, ALARM_CONTROL_BODY ''ATIVADO'' 0 ''Desligar'' @ NUL # drop 206 (result con),
       st\<lparr>alarm_active := True\<rparr>)"
    by (simp only: cstr_toggle_on option.map)
      (simp add: alarm_control_content_page ALARM_CONTROL_def sscanf_ALARM_PARAM_1)
  have "?P @ rest \<noteq> []" by simp
  from tcp_server_recv_GET [OF this copy [symmetric] get split_params_toggle_on page]
  show ?thesis by auto
qed

text \<open>
  C9: two requests \<^verbatim>\<open>GET /alarm?alarm=1\<close> in succession, on any connections and
  whatever else the requests carry after the request target: the alarm is on after
  each, the second leaves the server state as the first left it, and each hands to
  \<^verbatim>\<open>tcp_write\<close> the same header and the same 205 body bytes (up to the first
  \<^verbatim>\<open>tcp_write\<close> that lwIP refuses).
\<close>

theorem C9_toggle_on_twice:
  "alarm_active (snd (tcp_server_recv conv lw1 con1 pcb1 (Some (''GET /alarm?alarm=1 '' @ rest1)) st)) \<and>
   alarm_active (snd (tcp_server_recv conv lw2 con2 pcb2 (Some (''GET /alarm?alarm=1 '' @ rest2))
      (snd (tcp_server_recv conv lw1 con1 pcb1 (Some (''GET /alarm?alarm=1 '' @ rest1)) st)))) \<and>
   snd (tcp_server_recv conv lw2 con2 pcb2 (Some (''GET /alarm?alarm=1 '' @ rest2))
      (snd (tcp_server_recv conv lw1 con1 pcb1 (Some (''GET /alarm?alarm=1 '' @ rest1)) st))) =
   snd (tcp_server_recv conv lw1 con1 pcb1 (Some (''GET /alarm?alarm=1 '' @ rest1)) st) \<and>
   written (snd (snd (fst (tcp_server_recv conv lw1 con1 pcb1 (Some (''GET /alarm?alarm=1 '' @ rest1)) st)))) =
     written pcb1 @
       (if tcp_write_headers lw1 \<noteq> ERR_OK then []
        else if tcp_write_result lw1 \<noteq> ERR_OK then [HTTP_RESPONSE_HEADERS 200 205]
        else [HTTP_RESPONSE_HEADERS 200 205, ALARM_CONTROL_BODY ''ATIVADO'' 0 ''Desligar'']) \<and>
   written (snd (snd (fst (tcp_server_recv conv lw2 con2 pcb2 (Some (''GET /alarm?alarm=1 '' @ rest2))
      (snd (tcp_server_recv conv lw1 con1 pcb1 (Some (''GET /alarm?alarm=1 '' @ rest1)) st)))))) =
     written pcb2 @
       (if tcp_write_headers lw2 \<noteq> ERR_OK then []
        else if tcp_write_result lw2 \<noteq> ERR_OK then [HTTP_RESPONSE_HEADERS 200 205]
        else [HTTP_RESPONSE_HEADERS 200 205, ALARM_CONTROL_BODY ''ATIVADO'' 0 ''Desligar''])"
proof -
  obtain h1 where r1: "tcp_server_recv conv lw1 con1 pcb1 (Some (''GET /alarm?alarm=1 '' @ rest1)) st =
     (send_response lw1
        (con1\<lparr>headers := h1,
             result := ALARM_CONTROL_BODY ''ATIVADO'' 0 ''Desligar'' @ NUL # drop 206 (result con1),
             result_len := 205\<rparr>)
        pcb1 (gw st) (length (''GET /alarm?alarm=1 '' @ rest1)),
      st\<lparr>alarm_active := True\<rparr>)"
    using tcp_server_recv_toggle_on by blast
  obtain h2 where r2: "tcp_server_recv conv lw2 con2 pcb2 (Some (''GET /alarm?alarm=1 '' @ rest2))
        (st\<lparr>alarm_active := True\<rparr>) =
     (send_response lw2
        (con2\<lparr>headers := h2,
             result := ALARM_CONTROL_BODY ''ATIVADO'' 0 ''Desligar'' @ NUL # drop 206 (result con2),
             result_len := 205\<rparr>)
        pcb2 (gw (st\<lparr>alarm_active := True\<rparr>)) (length (''GET /alarm?alarm=1 '' @ rest2)),
      st\<lparr>alarm_active := True, alarm_active := True\<rparr>)"
    using tcp_server_recv_toggle_on by blast
  show ?thesis
    by (simp only: r1 r2 snd_conv fst_conv)
      (simp add: send_response_page_written ALARM_CONTROL_BODY_length)
qed

subsection \<open>Other paths\<close>

lemma dec_nat_length_byte: "n < 256 \<Longrightarrow> length (dec_nat n) \<le> 3"
proof -
  assume n: "n < 256"
  have one: "\<And>m. m < 10 \<Longrightarrow> length (dec_nat m) = 1"
    by (subst dec_nat.simps) simp
  have two: "\<And>m. m < 100 \<Longrightarrow> length (dec_nat m) \<le> 2"
  proof -
    fix m :: nat
    assume "m < 100"
    then have "m div 10 < 10" by simp
    then show "length (dec_nat m) \<le> 2"
      by (subst dec_nat.simps) (simp add: one)
  qed
  from n have "n div 10 < 100" by simp
  then show ?thesis
    using two [of "n div 10"] by (subst dec_nat.simps) simp
qed

lemma ipaddr_ntoa_length: "length (ipaddr_ntoa g) \<le> 15"
proof (cases g)
  case (fields a b c d)
  have "\<And>w :: 8 word. length (dec_nat (unat w)) \<le> 3"
  proof -
    fix w :: "8 word"
    have "unat w < 2 ^ LENGTH(8)" by (rule unsigned_less)
    then show "length (dec_nat (unat w)) \<le> 3"
      by (simp add: dec_nat_length_byte)
  qed
  from this [of a] this [of b] this [of c] this [of d] fields show ?thesis
    by simp
qed

lemma HTTP_RESPONSE_REDIRECT_length: "length (HTTP_RESPONSE_REDIRECT (ipaddr_ntoa g)) \<le> 62"
  using ipaddr_ntoa_length [of g]
  by (simp add: HTTP_RESPONSE_REDIRECT_def ALARM_CONTROL_def)

lemma send_response_redirect_written:
  assumes "result_len con = 0"
  shows "written (snd (snd (send_response lw con pcb g tot))) =
     written pcb @
       (if tcp_write_headers lw \<noteq> ERR_OK then [] else [HTTP_RESPONSE_REDIRECT (ipaddr_ntoa g)])"
proof -
  let ?R = "HTTP_RESPONSE_REDIRECT (ipaddr_ntoa g)"
  have len: "length ?R < sizeof_headers" "int (length ?R) mod 65536 = int (length ?R)"
    using HTTP_RESPONSE_REDIRECT_length [of g] by (simp_all add: sizeof_headers_def)
  show ?thesis
    using assms
    by (simp add: send_response_def sizeof_result_def snprintf_fits [OF len(1)] len(2)
        write_response_def tcp_write_def close_client_eq Let_def)
qed


lemma alarm_control_content_other_path:
  assumes "NUL \<notin> set request"
    and "take (length ALARM_CONTROL) request \<noteq> ALARM_CONTROL"
  shows "alarm_control_content conv request params res n st = (0, res, st)"
  using assms by (simp add: alarm_control_content_def strncmp_ALARM_CONTROL)

text \<open>
  C1, as the claim states it, fails: the path \<^verbatim>\<open>/alarmx\<close> is not \<^verbatim>\<open>/alarm\<close>, and
  the request is answered with the page, not with a redirect.
\<close>

theorem C1_counterexample:
  "cstr (fst (split_params
      (pbuf_copy_partial ''GET /alarmx?y HTTP/1.1'' (headers calloc_TCP_CONNECT_STATE_T) 22) 4)) 4
     = ''/alarmx'' \<and>
   ''/alarmx'' \<noteq> ALARM_CONTROL \<and>
   written (snd (snd (fst (tcp_server_recv saturating lwip_ok calloc_TCP_CONNECT_STATE_T new_client_pcb
      (Some ''GET /alarmx?y HTTP/1.1'') idle_state)))) =
     [HTTP_RESPONSE_HEADERS 200 205, ALARM_CONTROL_BODY ''DESATIVADO'' 1 ''Ligar'']"
  by code_simp

text \<open>
  C1, amended: for every GET request whose request string, as split off by the parser,
  does not begin with \<^verbatim>\<open>/alarm\<close>, the content generator returns length 0, the
  server state is unchanged, and what is handed to \<^verbatim>\<open>tcp_write\<close> is the 302 redirect
  to \<^verbatim>\<open>/alarm\<close> on the gateway address and nothing else (nothing at all when lwIP
  refuses the write), whatever the alarm state.
\<close>

theorem C1_redirect_unless_prefix:
  assumes "payload \<noteq> []"
    and "hdrs = pbuf_copy_partial payload (headers con)
           (if sizeof_headers - 1 < length payload then sizeof_headers - 1 else length payload)"
    and "take (length HTTP_GET) hdrs = HTTP_GET"
    and "take (length ALARM_CONTROL) (cstr (fst (split_params hdrs 4)) 4) \<noteq> ALARM_CONTROL"
  shows "fst (alarm_control_content conv (cstr (fst (split_params hdrs 4)) 4)
              (map_option (cstr (fst (split_params hdrs 4))) (snd (split_params hdrs 4)))
              (result con) sizeof_result st) = 0 \<and>
         written (snd (snd (fst (tcp_server_recv conv lw con pcb (Some payload) st)))) =
           written pcb @
             (if tcp_write_headers lw \<noteq> ERR_OK then []
              else [HTTP_RESPONSE_REDIRECT (ipaddr_ntoa (gw st))]) \<and>
         snd (tcp_server_recv conv lw con pcb (Some payload) st) = st"
proof -
  obtain hdrs2 params where sp: "split_params hdrs 4 = (hdrs2, params)"
    by (cases "split_params hdrs 4")
  with assms(4) have "take (length ALARM_CONTROL) (cstr hdrs2 4) \<noteq> ALARM_CONTROL"
    by simp
  then have gen: "alarm_control_content conv (cstr hdrs2 4) (map_option (cstr hdrs2) params) (result con)
      sizeof_result st = (0, result con, st)"
    by (simp add: alarm_control_content_other_path cstr_NUL_free)
  have "tcp_server_recv conv lw con pcb (Some payload) st =
      (send_response lw (con\<lparr>headers := hdrs2, result := result con, result_len := 0\<rparr>) pcb (gw st)
         (length payload), st)"
    by (rule tcp_server_recv_GET [OF assms(1-3) sp gen])
  then show ?thesis
    by (simp add: sp gen send_response_redirect_written)
qed

theorem C1_redirect_unless_prefix_witness:
  "''GET /index.html HTTP/1.1'' \<noteq> [] \<and>
   take (length HTTP_GET) (''GET /index.html HTTP/1.1'' @ replicate 104 NUL) = HTTP_GET \<and>
   take (length ALARM_CONTROL)
     (cstr (fst (split_params (''GET /index.html HTTP/1.1'' @ replicate 104 NUL) 4)) 4) \<noteq> ALARM_CONTROL \<and>
   written (snd (snd (fst (tcp_server_recv saturating lwip_ok calloc_TCP_CONNECT_STATE_T new_client_pcb
      (Some ''GET /index.html HTTP/1.1'') beeping_state)))) =
     [''HTTP/1.1 302 Redirect\<newline>Location: http://192.168.4.1/alarm\<newline>\<newline>''] \<and>
   snd (tcp_server_recv saturating lwip_ok calloc_TCP_CONNECT_STATE_T new_client_pcb
      (Some ''GET /index.html HTTP/1.1'') beeping_state) = beeping_state"
proof -
  have ne: "''GET /index.html HTTP/1.1'' \<noteq> []"
    by simp
  have copy: "''GET /index.html HTTP/1.1'' @ replicate 104 NUL =
      pbuf_copy_partial ''GET /index.html HTTP/1.1'' (headers calloc_TCP_CONNECT_STATE_T)
        (if sizeof_headers - 1 < length ''GET /index.html HTTP/1.1'' then sizeof_headers - 1
         else length ''GET /index.html HTTP/1.1'')"
    by code_simp
  have get: "take (length HTTP_GET) (''GET /index.html HTTP/1.1'' @ replicate 104 NUL) = HTTP_GET"
    by (simp add: HTTP_GET_def)
  have path: "take (length ALARM_CONTROL)
     (cstr (fst (split_params (''GET /index.html HTTP/1.1'' @ replicate 104 NUL) 4)) 4) \<noteq> ALARM_CONTROL"
    by code_simp
  have r: "HTTP_RESPONSE_REDIRECT (ipaddr_ntoa (gw beeping_state)) =
      ''HTTP/1.1 302 Redirect\<newline>Location: http://192.168.4.1/alarm\<newline>\<newline>''"
    by code_simp
  show ?thesis
    using ne get path r
      C1_redirect_unless_prefix [OF ne copy get path, of saturating beeping_state lwip_ok new_client_pcb]
    by (simp add: lwip_ok_def new_client_pcb_def)
qed

subsection \<open>An empty query\<close>

lemma length_takeWhile_neq:
  "c \<in> set s \<Longrightarrow> length (takeWhile (\<lambda>x. x \<noteq> c) s) < length s"
  by (induction s) auto

lemma strchr_nth:
  assumes "strchr buf i c = Some q"
  shows "buf ! q = c"
proof -
  let ?s = "cstr buf i"
  let ?k = "length (takeWhile (\<lambda>x. x \<noteq> c) ?s)"
  from assms have mem: "c \<in> set ?s" and q: "q = i + ?k"
    by (auto simp: strchr_def Let_def split: if_splits)
  from mem have k: "?k < length ?s"
    by (rule length_takeWhile_neq)
  then have "?s ! ?k = c"
    using nth_length_takeWhile [of "\<lambda>x. x \<noteq> c" ?s] by simp
  moreover have "?s ! ?k = drop i buf ! ?k"
    unfolding cstr_def using k by (simp add: cstr_def takeWhile_nth)
  moreover have "i + ?k < length buf"
    using k length_takeWhile_le [of "\<lambda>c. c \<noteq> NUL" "drop i buf"] by (simp add: cstr_def)
  ultimately show ?thesis
    using q by simp
qed

text \<open>
  C5 does not hold of the code: whenever \<^verbatim>\<open>strchr\<close> finds a \<^verbatim>\<open>?\<close> in the
  request, \<^verbatim>\<open>params\<close> ends up non-null, pointing to the byte after it; the branch
  that sets it to the null pointer tests the \<^verbatim>\<open>?\<close> itself and is never taken. For
  the request \<^verbatim>\<open>GET /alarm?\<close> the parameter is the empty string.
\<close>

theorem C5_query_never_absent:
  assumes "strchr hdrs request (CHR ''?'') = Some q"
  shows "snd (split_params hdrs request) = Some (q + 1)"
proof -
  from assms have "hdrs ! q = CHR ''?''"
    by (rule strchr_nth)
  then have "hdrs ! q \<noteq> NUL"
    by (simp add: NUL_def)
  with assms show ?thesis
    by (simp add: split_params_def Let_def)
qed

theorem C5_query_never_absent_witness:
  "strchr (pbuf_copy_partial ''GET /alarm?'' (headers calloc_TCP_CONNECT_STATE_T) 11) 4 (CHR ''?'')
     = Some 10 \<and>
   snd (split_params (pbuf_copy_partial ''GET /alarm?'' (headers calloc_TCP_CONNECT_STATE_T) 11) 4)
     = Some (10 + 1) \<and>
   cstr (fst (split_params (pbuf_copy_partial ''GET /alarm?'' (headers calloc_TCP_CONNECT_STATE_T) 11) 4))
     (10 + 1) = []"
proof -
  have q: "strchr (pbuf_copy_partial ''GET /alarm?'' (headers calloc_TCP_CONNECT_STATE_T) 11) 4
      (CHR ''?'') = Some 10"
    by code_simp
  have e: "cstr (fst (split_params
      (pbuf_copy_partial ''GET /alarm?'' (headers calloc_TCP_CONNECT_STATE_T) 11) 4)) (10 + 1) = []"
    by code_simp
  show ?thesis
    using q e C5_query_never_absent [OF q] by simp
qed

subsection \<open>Connection states stay well-formed\<close>

text \<open>
  The state that \<^verbatim>\<open>calloc\<close> returns is well-formed, and a connection that is open
  after an acknowledgment or a receive event is well-formed again. So the string
  functions never reach the end of \<^verbatim>\<open>headers\<close>, and the sums of the counters never
  leave the range of \<^verbatim>\<open>int\<close>.
\<close>

lemma calloc_ok: "con_state_ok calloc_TCP_CONNECT_STATE_T"
  by (simp add: con_state_ok_def calloc_TCP_CONNECT_STATE_T_def sizeof_headers_def sizeof_result_def)

lemma pbuf_copy_partial_ok:
  assumes "length h = sizeof_headers" and "h ! (sizeof_headers - 1) = NUL"
    and "n \<le> length payload" and "n \<le> sizeof_headers - 1"
  shows "length (pbuf_copy_partial payload h n) = sizeof_headers \<and>
         pbuf_copy_partial payload h n ! (sizeof_headers - 1) = NUL"
  using assms by (auto simp: pbuf_copy_partial_def nth_append sizeof_headers_def)

lemma nth_list_update_same: "xs ! k = v \<Longrightarrow> xs[j := v] ! k = v"
  by (cases "j = k"; cases "j < length xs") (simp_all add: list_update_beyond)

lemma split_params_ok:
  assumes "length h = sizeof_headers" and "h ! (sizeof_headers - 1) = NUL"
  shows "length (fst (split_params h i)) = sizeof_headers \<and>
         fst (split_params h i) ! (sizeof_headers - 1) = NUL"
  using assms
  by (simp add: split_params_def Let_def nth_list_update_same split: option.splits)

lemma nth_after_terminator:
  "length w < m \<Longrightarrow> m < length buf \<Longrightarrow> (w @ NUL # drop (Suc (length w)) buf) ! m = buf ! m"
  by (simp add: nth_append nth_Cons')

lemma snprintf_ok:
  assumes "length buf = n" and "0 < n" and "buf ! (n - 1) = NUL"
  shows "length (fst (snprintf buf n s)) = n \<and> fst (snprintf buf n s) ! (n - 1) = NUL"
proof -
  define w where "w = take (n - 1) s"
  have w: "length w \<le> n - 1" by (simp add: w_def)
  have eq: "fst (snprintf buf n s) = w @ NUL # drop (Suc (length w)) buf"
    by (simp add: snprintf_def Let_def w_def)
  have len: "length (w @ NUL # drop (Suc (length w)) buf) = n"
    using assms(1,2) w by simp
  have "(w @ NUL # drop (Suc (length w)) buf) ! (n - 1) = NUL"
  proof (cases "length w = n - 1")
    case True
    then show ?thesis by (simp add: nth_append)
  next
    case False
    with w have "length w < n - 1" by simp
    moreover have "n - 1 < length buf" using assms(1,2) by simp
    ultimately show ?thesis
      using assms(3) by (simp only: nth_after_terminator)
  qed
  with len eq show ?thesis by simp
qed


lemma alarm_control_content_ok:
  assumes "length res = sizeof_result"
  shows "length (fst (snd (alarm_control_content conv request params res sizeof_result st))) = sizeof_result \<and>
         (fst (alarm_control_content conv request params res sizeof_result st) = 0 \<or>
          fst (alarm_control_content conv request params res sizeof_result st) = 205)"
  using assms
  by (simp add: alarm_control_content_def Let_def snprintf_fits ALARM_CONTROL_BODY_length
      sizeof_result_def)

lemma write_response_ok:
  assumes "fst (snd (write_response lw con pcb tot)) = Some c'"
  shows "c' = con\<lparr>sent_len := 0\<rparr>"
  using assms
  by (auto simp: write_response_def Let_def close_client_eq split: if_splits)

lemma send_response_ok:
  assumes "length (headers con) = sizeof_headers" and "headers con ! (sizeof_headers - 1) = NUL"
    and "length (result con) = sizeof_result"
    and "result_len con = 0 \<or> result_len con = 205"
    and "fst (snd (send_response lw con pcb g tot)) = Some c'"
  shows "con_state_ok c'"
proof -
  have pos: "0 < sizeof_headers" by (simp add: sizeof_headers_def)
  from assms(4) show ?thesis
  proof
    assume z: "result_len con = 0"
    let ?R = "HTTP_RESPONSE_REDIRECT (ipaddr_ntoa g)"
    from z assms(5) have "c' = con\<lparr>headers := fst (snprintf (headers con) sizeof_headers ?R),
        header_len := snd (snprintf (headers con) sizeof_headers ?R), sent_len := 0\<rparr>"
      by (auto simp: send_response_def sizeof_result_def case_prod_beta Let_def
          dest!: write_response_ok)
    moreover have "snd (snprintf (headers con) sizeof_headers ?R) \<le> 62"
      using HTTP_RESPONSE_REDIRECT_length [of g] by (simp add: snprintf_def Let_def)
    moreover have "0 \<le> snd (snprintf (headers con) sizeof_headers ?R)"
      by (simp add: snprintf_def Let_def)
    ultimately show ?thesis
      using snprintf_ok [OF assms(1) pos assms(2), of ?R] assms(3) z
      by (simp add: con_state_ok_def)
  next
    assume p: "result_len con = 205"
    let ?H = "HTTP_RESPONSE_HEADERS 200 205"
    from p assms(5) have "c' = con\<lparr>headers := fst (snprintf (headers con) sizeof_headers ?H),
        header_len := snd (snprintf (headers con) sizeof_headers ?H), sent_len := 0\<rparr>"
      by (auto simp: send_response_def sizeof_result_def case_prod_beta Let_def close_client_eq
          dest!: write_response_ok split: if_splits)
    moreover have "snd (snprintf (headers con) sizeof_headers ?H) = 94"
      by (simp add: snprintf_def Let_def HTTP_RESPONSE_HEADERS_page_length)
    ultimately show ?thesis
      using snprintf_ok [OF assms(1) pos assms(2), of ?H] assms(3) p
      by (simp add: con_state_ok_def)
  qed
qed

lemma tcp_server_sent_ok:
  assumes "con_state_ok c" and "fst (snd (tcp_server_sent lw c pcb len)) = Some c'"
  shows "con_state_ok c'"
  using assms
  by (auto simp: tcp_server_sent_def Let_def close_client_eq con_state_ok_def split: if_splits)

lemma tcp_server_recv_ok:
  assumes "con_state_ok c" and "fst (snd (fst (tcp_server_recv conv lw c pcb p st))) = Some c'"
  shows "con_state_ok c'"
proof (cases p)
  case None
  with assms(2) show ?thesis
    by (simp add: tcp_server_recv_def close_client_eq)
next
  case (Some payload)
  define hdrs where "hdrs = pbuf_copy_partial payload (headers c)
      (if sizeof_headers - 1 < length payload then sizeof_headers - 1 else length payload)"
  from assms(1) have h: "length hdrs = sizeof_headers \<and> hdrs ! (sizeof_headers - 1) = NUL"
    unfolding hdrs_def by (intro pbuf_copy_partial_ok) (auto simp: con_state_ok_def)
  show ?thesis
  proof (cases "payload = []")
    case True
    with assms Some show ?thesis
      by (simp add: tcp_server_recv_def)
  next
    case ne: False
    show ?thesis
    proof (cases "take (length HTTP_GET) hdrs = HTTP_GET")
      case False
      then have "tcp_server_recv conv lw c pcb (Some payload) st =
           ((ERR_OK, Some (c\<lparr>headers := hdrs\<rparr>), pcb\<lparr>recved := recved pcb + length payload\<rparr>), st)"
        using ne unfolding hdrs_def
        by (auto simp: tcp_server_recv_def Let_def strncmp_GET)
      with assms Some h show ?thesis
        by (auto simp: con_state_ok_def)
    next
      case True
      obtain hdrs2 params where sp: "split_params hdrs 4 = (hdrs2, params)"
        by (cases "split_params hdrs 4")
      obtain len res st1 where gen: "alarm_control_content conv (cstr hdrs2 4)
          (map_option (cstr hdrs2) params) (result c) sizeof_result st = (len, res, st1)"
        by (cases "alarm_control_content conv (cstr hdrs2 4)
          (map_option (cstr hdrs2) params) (result c) sizeof_result st")
      have r: "tcp_server_recv conv lw c pcb (Some payload) st =
          (send_response lw (c\<lparr>headers := hdrs2, result := res, result_len := len\<rparr>) pcb (gw st1)
             (length payload), st1)"
        by (rule tcp_server_recv_GET [OF ne hdrs_def True sp gen])
      have h2: "length hdrs2 = sizeof_headers \<and> hdrs2 ! (sizeof_headers - 1) = NUL"
        using split_params_ok [of hdrs 4] h sp by simp
      have g: "length res = sizeof_result \<and> (len = 0 \<or> len = 205)"
        using alarm_control_content_ok [of "result c" conv "cstr hdrs2 4" "map_option (cstr hdrs2) params" st]
          assms(1) gen by (simp add: con_state_ok_def)
      show ?thesis
        using assms(2) Some r h2 g
        by (intro send_response_ok [of "c\<lparr>headers := hdrs2, result := res, result_len := len\<rparr>"
              lw pcb "gw st1" "length payload"]) simp_all
    qed
  qed
qed

end
